theory Spec2Isabelle
  imports Main
begin

section \<open>Values shared by the backend modules\<close>

text \<open>
  A value thrown by JavaScript code: either an \<open>Error\<close> instance carrying its message, or
  any other thrown value. The routes distinguish the two with \<open>error instanceof Error\<close>.
\<close>

datatype js_error = Error string | NonError

text \<open>
  The JSON-like values that flow from the SQL engine through \<open>executeQuery\<close> into the
  response of the query route.
\<close>

datatype jsval =
    Undefined
  | Num int
  | Str string
  | Arr "jsval list"
  | Obj "(string \<times> jsval) list"

text \<open>
  Property read \<open>v.k\<close> on a value that is not \<open>undefined\<close>: a key that the value does not
  have reads as \<open>undefined\<close>.
\<close>

fun getProp :: "jsval \<Rightarrow> string \<Rightarrow> jsval" where
  "getProp (Obj kvs) k = (case map_of kvs k of None \<Rightarrow> Undefined | Some v \<Rightarrow> v)"
| "getProp v k = Undefined"

section \<open>Statement classification (\<open>sqlQuery.trim().toLowerCase().startsWith('select')\<close>)\<close>

text \<open>
  Strings are lists of code units below 256. \<open>String.prototype.trim\<close> removes white space
  and line terminators from both ends; among the code units below 256 these are TAB, LF, VT,
  FF, CR, SPACE and NBSP. \<open>toLowerCase\<close> maps \<open>A..Z\<close> and the upper-case letters of
  Latin-1 to their lower-case forms.
\<close>

definition isWhiteSpace :: "char \<Rightarrow> bool" where
  "isWhiteSpace c = (of_char c \<in> {9, 10, 11, 12, 13, 32, 160 :: nat})"

definition trim :: "string \<Rightarrow> string" where
  "trim s = rev (dropWhile isWhiteSpace (rev (dropWhile isWhiteSpace s)))"

definition toLowerChar :: "char \<Rightarrow> char" where
  "toLowerChar c =
     (let n = (of_char c :: nat)
      in if (65 \<le> n \<and> n \<le> 90) \<or> (192 \<le> n \<and> n \<le> 222 \<and> n \<noteq> 215)
         then char_of (n + 32) else c)"

definition toLowerCase :: "string \<Rightarrow> string" where
  "toLowerCase s = map toLowerChar s"

definition startsWith :: "string \<Rightarrow> string \<Rightarrow> bool" where
  "startsWith s p = (take (length p) s = p)"

definition isSelect :: "string \<Rightarrow> bool" where
  "isSelect sqlQuery = startsWith (toLowerCase (trim sqlQuery)) ''select''"

section \<open>DatabaseManager: the single active data-file connection\<close>

text \<open>
  The interface \<open>DatabaseInfo\<close>; its field \<open>size\<close> is written \<open>size_bytes\<close> here.
\<close>

record DatabaseInfo =
  path :: string
  name :: string
  size_bytes :: nat
  tables :: "string list"
  lastAccessed :: nat

text \<open>
  A connection pool is identified by a serial number and remembers the file it was created
  for. The state of the process is the two private fields of the \<open>DatabaseManager\<close>
  singleton together with what the fields do not show: the pools that were created and not
  yet disposed, and the files on disk (path to content, a list of bytes).
\<close>

type_synonym pool = "nat \<times> string"

type_synonym disk = "string \<rightharpoonup> nat list"

record world =
  currentDb :: "pool option"
  currentDbInfo :: "DatabaseInfo option"
  pools :: "pool list"
  files :: disk
  serial :: nat

definition init_world :: "disk \<Rightarrow> world" where
  "init_world fs = \<lparr>currentDb = None, currentDbInfo = None, pools = [], files = fs, serial = 0\<rparr>"

text \<open>
  What the environment answers during one call of \<open>loadDatabase\<close>: whether
  \<open>createConnectionPool\<close> throws, what the catalog query on \<open>sqlite_master\<close> gives, and
  the clock read by \<open>new Date()\<close>. Disposing a pool and unlinking a file are taken to
  succeed, and the engine is taken not to create or remove files by itself.
\<close>

record load_io =
  connect_throws :: "js_error option"
  catalog :: "js_error + string list"
  clock :: nat

definition statSync :: "disk \<Rightarrow> string \<Rightarrow> js_error + nat" where
  "statSync fs p =
     (case fs p of
        None \<Rightarrow> Inl (Error (''ENOENT: no such file or directory, stat '' @ p))
      | Some bytes \<Rightarrow> Inr (length bytes))"

definition existsSync :: "disk \<Rightarrow> string \<Rightarrow> bool" where
  "existsSync fs p = (fs p \<noteq> None)"

definition unlink :: "string \<Rightarrow> world \<Rightarrow> world" where
  "unlink p w = w\<lparr>files := (files w)(p := None)\<rparr>"

definition closeCurrentDatabase :: "world \<Rightarrow> world" where
  "closeCurrentDatabase w =
     (case currentDb w of
        None \<Rightarrow> w
      | Some h \<Rightarrow> w\<lparr>pools := removeAll h (pools w), currentDb := None, currentDbInfo := None\<rparr>)"

text \<open>The body of the \<open>try\<close> block of \<open>loadDatabase\<close>.\<close>

definition loadDatabase_try ::
  "string \<Rightarrow> string \<Rightarrow> load_io \<Rightarrow> world \<Rightarrow> (js_error + DatabaseInfo) \<times> world" where
  "loadDatabase_try filePath originalName io w =
     (case connect_throws io of
        Some e \<Rightarrow> (Inl e, w)
      | None \<Rightarrow>
          let h = (serial w, filePath);
              w2 = w\<lparr>currentDb := Some h, pools := h # pools w, serial := Suc (serial w)\<rparr>
          in (case catalog io of
                Inl e \<Rightarrow> (Inl e, w2)
              | Inr tbls \<Rightarrow>
                  (case statSync (files w2) filePath of
                     Inl e \<Rightarrow> (Inl e, w2)
                   | Inr sz \<Rightarrow>
                       (let info = \<lparr>path = filePath, name = originalName, size_bytes = sz,
                                    tables = tbls, lastAccessed = clock io\<rparr>
                        in (Inr info, w2\<lparr>currentDbInfo := Some info\<rparr>)))))"

definition loadDatabase ::
  "string \<Rightarrow> string \<Rightarrow> load_io \<Rightarrow> world \<Rightarrow> (js_error + DatabaseInfo) \<times> world" where
  "loadDatabase filePath originalName io w =
     (case loadDatabase_try filePath originalName io (closeCurrentDatabase w) of
        (Inr info, w') \<Rightarrow> (Inr info, w')
      | (Inl e, w') \<Rightarrow>
          (Inl e, if existsSync (files w') filePath then unlink filePath w' else w'))"

definition no_database_loaded :: js_error where
  "no_database_loaded = Error ''No database currently loaded''"

definition getCurrentDatabase :: "world \<Rightarrow> js_error + pool" where
  "getCurrentDatabase w =
     (case currentDb w of None \<Rightarrow> Inl no_database_loaded | Some h \<Rightarrow> Inr h)"

definition getCurrentDatabaseInfo :: "world \<Rightarrow> js_error + DatabaseInfo" where
  "getCurrentDatabaseInfo w =
     (case currentDbInfo w of None \<Rightarrow> Inl no_database_loaded | Some i \<Rightarrow> Inr i)"

definition isConnected :: "world \<Rightarrow> bool" where
  "isConnected w = (currentDb w \<noteq> None)"

text \<open>
  \<open>executeQuery\<close>: the second argument is what the engine answers to the statement, a
  thrown error or the value \<open>query\<close> resolves to.
\<close>

definition executeQuery :: "string \<Rightarrow> js_error + jsval \<Rightarrow> world \<Rightarrow> js_error + jsval" where
  "executeQuery sqlQuery engine w =
     (case currentDb w of
        None \<Rightarrow> Inl no_database_loaded
      | Some h \<Rightarrow>
          (case engine of
             Inl e \<Rightarrow> Inl e
           | Inr result \<Rightarrow>
               Inr (if isSelect sqlQuery then result else Obj [(''changes'', result)])))"

text \<open>A call the process can receive, with the environment's answers, and its effect.\<close>

datatype call =
    LoadDatabase string string load_io
  | CloseCurrentDatabase
  | ExecuteQuery string "js_error + jsval"

fun step :: "world \<Rightarrow> call \<Rightarrow> world" where
  "step w (LoadDatabase p n io) = snd (loadDatabase p n io w)"
| "step w CloseCurrentDatabase = closeCurrentDatabase w"
| "step w (ExecuteQuery q r) = w"

definition run :: "disk \<Rightarrow> call list \<Rightarrow> world" where
  "run fs cs = foldl step (init_world fs) cs"

section \<open>The query route (\<open>queryRouter.post('/')\<close>)\<close>

record QueryHistoryEntry =
  query :: string
  database_name :: string
  database_path :: string
  execution_time_ms :: int
  success :: bool
  error_message :: "string option"
  results :: "jsval option"

text \<open>
  Modelled from the spec: \<open>QueriesModel.addToHistory\<close> (module \<open>db/models\<close>) is not among
  the sources. The spec's HistoryRecorder has \<open>record(entry)\<close>, which "appends one
  immutable QueryHistoryEntry per executed query": the entry goes to the end of the log, and
  the call does not fail.
\<close>

definition addToHistory :: "QueryHistoryEntry \<Rightarrow> QueryHistoryEntry list \<Rightarrow> QueryHistoryEntry list" where
  "addToHistory entry log = log @ [entry]"

text \<open>A JSON response: the body and the HTTP status.\<close>

datatype response = Json jsval nat

text \<open>
  What the environment answers during one request: the two readings of \<open>Date.now()\<close>
  (before the \<open>try\<close> block, and when the history entry is built) and the engine's answer
  to the statement.
\<close>

record query_io =
  startTime :: int
  endTime :: int
  engine :: "js_error + jsval"

text \<open>\<open>error instanceof Error ? error.message : 'Unknown error'\<close>\<close>

definition message_of :: "js_error \<Rightarrow> string" where
  "message_of e = (case e of Error m \<Rightarrow> m | NonError \<Rightarrow> ''Unknown error'')"

text \<open>The \<open>catch\<close> clause of the inner \<open>try\<close>: record the failure, then throw again.\<close>

definition post_catch ::
  "string \<Rightarrow> query_io \<Rightarrow> world \<Rightarrow> js_error \<Rightarrow> QueryHistoryEntry list
   \<Rightarrow> (js_error + response) \<times> QueryHistoryEntry list" where
  "post_catch sql io w e log =
     (let errorMessage = message_of e
      in (case getCurrentDatabaseInfo w of
            Inl e2 \<Rightarrow> (Inl e2, log)
          | Inr dbInfo \<Rightarrow>
              (Inl e,
               addToHistory
                 \<lparr>query = sql, database_name = name dbInfo, database_path = path dbInfo,
                  execution_time_ms = endTime io - startTime io, success = False,
                  error_message = Some errorMessage, results = None\<rparr> log)))"

text \<open>The inner \<open>try\<close> statement with its \<open>catch\<close> clause.\<close>

definition post_try ::
  "string \<Rightarrow> query_io \<Rightarrow> world \<Rightarrow> QueryHistoryEntry list
   \<Rightarrow> (js_error + response) \<times> QueryHistoryEntry list" where
  "post_try sql io w log =
     (case getCurrentDatabaseInfo w of
        Inl e \<Rightarrow> post_catch sql io w e log
      | Inr dbInfo \<Rightarrow>
          (case executeQuery sql (engine io) w of
             Inl e \<Rightarrow> post_catch sql io w e log
           | Inr res \<Rightarrow>
               (let log' = addToHistory
                     \<lparr>query = sql, database_name = name dbInfo, database_path = path dbInfo,
                      execution_time_ms = endTime io - startTime io, success = True,
                      error_message = None, results = Some res\<rparr> log
                in if isSelect sql
                   then (Inr (Json (Obj [(''results'', res)]) 200), log')
                   else (Inr (Json (Obj [(''changes'', getProp res ''changes''),
                                         (''lastInsertId'', getProp res ''lastInsertRowid'')]) 200),
                         log'))))"

text \<open>
  The handler. Its first argument is what \<open>c.req.json()\<close> gives: it may throw, and the
  body's \<open>sql\<close> field, a string when present, may be missing; \<open>!sql\<close> holds for a missing
  field and for the empty string.
\<close>

definition failed_to_execute :: "js_error \<Rightarrow> response" where
  "failed_to_execute e =
     Json (Obj [(''error'', Str ''Failed to execute query''),
                (''details'', Str (message_of e))]) 500"

definition post_query ::
  "js_error + string option \<Rightarrow> query_io \<Rightarrow> world \<Rightarrow> QueryHistoryEntry list
   \<Rightarrow> response \<times> QueryHistoryEntry list" where
  "post_query body io w log =
     (if \<not> isConnected w then (Json (Obj [(''error'', Str ''No database loaded'')]) 400, log)
      else (case body of
              Inl e \<Rightarrow> (failed_to_execute e, log)
            | Inr None \<Rightarrow> (Json (Obj [(''error'', Str ''No SQL query provided'')]) 400, log)
            | Inr (Some sql) \<Rightarrow>
                if sql = [] then (Json (Obj [(''error'', Str ''No SQL query provided'')]) 400, log)
                else (case post_try sql io w log of
                        (Inr resp, log') \<Rightarrow> (resp, log')
                      | (Inl e, log') \<Rightarrow> (failed_to_execute e, log'))))"

section \<open>Preferences (\<open>AppDatabase.setPreference\<close>)\<close>

text \<open>
  A row of \<open>user_preferences\<close>; the columns \<open>id\<close>, \<open>key\<close> and \<open>value\<close> are written
  \<open>pref_id\<close>, \<open>pref_key\<close> and \<open>pref_value\<close>. The table keeps its rows in insertion order
  and the last \<open>AUTOINCREMENT\<close> number handed out.
\<close>

record Preference =
  pref_id :: nat
  pref_key :: string
  pref_value :: string
  updated_at :: nat

record user_preferences =
  pref_rows :: "Preference list"
  pref_seq :: nat

text \<open>
  \<open>INSERT INTO user_preferences (key, value) VALUES (?, ?) ON CONFLICT(key) DO UPDATE SET
  value = ?, updated_at = CURRENT_TIMESTAMP\<close>; the third argument is \<open>CURRENT_TIMESTAMP\<close>.
\<close>

definition setPreference :: "string \<Rightarrow> string \<Rightarrow> nat \<Rightarrow> user_preferences \<Rightarrow> user_preferences" where
  "setPreference k v now t =
     (if k \<in> set (map pref_key (pref_rows t))
      then t\<lparr>pref_rows :=
               map (\<lambda>r. if pref_key r = k then r\<lparr>pref_value := v, updated_at := now\<rparr> else r)
                 (pref_rows t)\<rparr>
      else t\<lparr>pref_rows :=
               pref_rows t @
                 [\<lparr>pref_id = Suc (pref_seq t), pref_key = k, pref_value = v, updated_at = now\<rparr>],
             pref_seq := Suc (pref_seq t)\<rparr>)"

text \<open>\<open>SELECT value FROM user_preferences WHERE key = ?\<close>, then \<open>result[0]?.value ?? null\<close>.\<close>

definition getPreference :: "string \<Rightarrow> user_preferences \<Rightarrow> string option" where
  "getPreference k t =
     (case filter (\<lambda>r. pref_key r = k) (pref_rows t) of
        [] \<Rightarrow> None
      | r # _ \<Rightarrow> Some (pref_value r))"

section \<open>The catalog of data files (\<open>DatabaseMetadataModel\<close>)\<close>

text \<open>
  The argument of \<open>create\<close> is a \<open>DatabaseMetadata\<close> without \<open>id\<close>, \<open>last_accessed\<close> and
  \<open>created_at\<close>; a stored row has all fields. The fields \<open>id\<close>, \<open>name\<close>, \<open>path\<close>,
  \<open>size\<close> and \<open>notes\<close> are written \<open>md_id\<close>, \<open>md_name\<close>, \<open>md_path\<close>, \<open>md_size\<close>
  and \<open>md_notes\<close>. The three date columns hold text or \<open>NULL\<close>.
\<close>

record MetadataInput =
  md_name :: string
  md_path :: string
  md_size :: nat
  table_count :: nat
  is_favorite :: bool
  md_notes :: "string option"
  schema_cache :: "string option"
  schema_updated_at :: "string option"

record DatabaseMetadata = MetadataInput +
  md_id :: nat
  last_accessed :: "string option"
  created_at :: "string option"

text \<open>
  The control database as \<open>create\<close> sees it: the rows of \<open>database_metadata\<close>, the last
  \<open>AUTOINCREMENT\<close> number, and the snapshot that \<open>BEGIN\<close> takes and \<open>ROLLBACK\<close> restores
  (absent when no transaction is active).
\<close>

record control_db =
  metadata_rows :: "DatabaseMetadata list"
  metadata_seq :: nat
  in_txn :: "(DatabaseMetadata list \<times> nat) option"

definition exec_begin :: "control_db \<Rightarrow> (js_error + unit) \<times> control_db" where
  "exec_begin db =
     (case in_txn db of
        Some snapshot \<Rightarrow> (Inl (Error ''cannot start a transaction within a transaction''), db)
      | None \<Rightarrow> (Inr (), db\<lparr>in_txn := Some (metadata_rows db, metadata_seq db)\<rparr>))"

definition exec_commit :: "control_db \<Rightarrow> (js_error + unit) \<times> control_db" where
  "exec_commit db =
     (case in_txn db of
        None \<Rightarrow> (Inl (Error ''cannot commit - no transaction is active''), db)
      | Some snapshot \<Rightarrow> (Inr (), db\<lparr>in_txn := None\<rparr>))"

definition exec_rollback :: "control_db \<Rightarrow> (js_error + unit) \<times> control_db" where
  "exec_rollback db =
     (case in_txn db of
        None \<Rightarrow> (Inl (Error ''cannot rollback - no transaction is active''), db)
      | Some (rows, seq) \<Rightarrow>
          (Inr (), db\<lparr>metadata_rows := rows, metadata_seq := seq, in_txn := None\<rparr>))"

text \<open>\<open>x || null\<close> on an optional string: an absent and an empty string both give \<open>null\<close>.\<close>

definition or_null :: "string option \<Rightarrow> string option" where
  "or_null x = (case x of None \<Rightarrow> None | Some s \<Rightarrow> if s = [] then None else Some s)"

text \<open>
  The row that \<open>INSERT INTO database_metadata (name, path, size, table_count, is_favorite,
  notes, schema_cache, schema_updated_at) VALUES (...)\<close> stores for the bound values of
  \<open>create\<close>: \<open>last_accessed\<close> and \<open>created_at\<close> default to \<open>CURRENT_TIMESTAMP\<close>, the
  text given as the last argument.
\<close>

definition inserted_row :: "MetadataInput \<Rightarrow> nat \<Rightarrow> string \<Rightarrow> DatabaseMetadata" where
  "inserted_row m new_id now =
     \<lparr>md_name = md_name m, md_path = md_path m, md_size = md_size m,
      table_count = table_count m, is_favorite = is_favorite m,
      md_notes = or_null (md_notes m), schema_cache = or_null (schema_cache m),
      schema_updated_at = or_null (schema_updated_at m),
      md_id = new_id, last_accessed = Some now, created_at = Some now\<rparr>"

text \<open>
  The number that \<open>INTEGER PRIMARY KEY AUTOINCREMENT\<close> gives the next row: one more than
  the largest of the recorded sequence number and the ids in the table.
\<close>

definition next_rowid :: "control_db \<Rightarrow> nat" where
  "next_rowid db = Suc (fold max (map md_id (metadata_rows db)) (metadata_seq db))"

text \<open>
  The insert with \<open>RETURNING id\<close>. The column \<open>path\<close> is \<open>UNIQUE\<close>; the second argument
  is \<open>CURRENT_TIMESTAMP\<close>.
\<close>

definition insert_metadata ::
  "MetadataInput \<Rightarrow> string \<Rightarrow> control_db \<Rightarrow> (js_error + nat) \<times> control_db" where
  "insert_metadata m now db =
     (if md_path m \<in> set (map md_path (metadata_rows db))
      then (Inl (Error ''UNIQUE constraint failed: database_metadata.path''), db)
      else (let new_id = next_rowid db
            in (Inr new_id,
                db\<lparr>metadata_rows := metadata_rows db @ [inserted_row m new_id now],
                   metadata_seq := new_id\<rparr>)))"

text \<open>
  The column list of the model's \<open>SELECT\<close> statements: \<open>id, name, path, size, table_count,
  datetime(last_accessed) as last_accessed, is_favorite, notes, schema_cache,
  datetime(schema_updated_at) as schema_updated_at, datetime(created_at) as created_at\<close>.
  The first argument is the SQL function \<open>datetime\<close> of the engine on a stored text: the
  text it gives, or \<open>NULL\<close> when the stored text is not a date; \<open>datetime(NULL)\<close> is
  \<open>NULL\<close>.
\<close>

definition select_columns :: "(string \<Rightarrow> string option) \<Rightarrow> DatabaseMetadata \<Rightarrow> DatabaseMetadata" where
  "select_columns datetime r =
     r\<lparr>last_accessed := Option.bind (last_accessed r) datetime,
       schema_updated_at := Option.bind (schema_updated_at r) datetime,
       created_at := Option.bind (created_at r) datetime\<rparr>"

definition findById :: "(string \<Rightarrow> string option) \<Rightarrow> nat \<Rightarrow> control_db \<Rightarrow> DatabaseMetadata option" where
  "findById datetime i db =
     map_option (select_columns datetime) (find (\<lambda>r. md_id r = i) (metadata_rows db))"

definition findByPath :: "(string \<Rightarrow> string option) \<Rightarrow> string \<Rightarrow> control_db \<Rightarrow> DatabaseMetadata option" where
  "findByPath datetime p db =
     map_option (select_columns datetime) (find (\<lambda>r. md_path r = p) (metadata_rows db))"

text \<open>Decimal digits of a number, as a template literal prints it.\<close>

function show_nat :: "nat \<Rightarrow> string" where
  "show_nat n =
     (if n < 10 then [char_of (48 + n)] else show_nat (n div 10) @ [char_of (48 + n mod 10)])"
  by pat_completeness auto
termination
  by (relation "measure id") auto

declare show_nat.simps [simp del]

text \<open>The \<open>catch\<close> clause of \<open>create\<close>: \<open>ROLLBACK\<close>, then throw again.\<close>

definition create_catch :: "js_error \<Rightarrow> control_db \<Rightarrow> (js_error + DatabaseMetadata) \<times> control_db" where
  "create_catch e db =
     (case exec_rollback db of
        (Inl e2, db') \<Rightarrow> (Inl e2, db')
      | (Inr u, db') \<Rightarrow> (Inl e, db'))"

text \<open>
  \<open>create\<close>: \<open>BEGIN IMMEDIATE\<close>, the insert, the select of the inserted row, \<open>COMMIT\<close>.
  The insert returns a number when it succeeds, so the check of \<open>result.id\<close> cannot fail.
  The select is the statement of \<open>findById\<close>; the record returned is the one it gives,
  with \<open>datetime\<close> applied to the three date columns. The first argument is the engine's \<open>datetime\<close>, the third
  \<open>CURRENT_TIMESTAMP\<close>.
\<close>

definition create ::
  "(string \<Rightarrow> string option) \<Rightarrow> MetadataInput \<Rightarrow> string \<Rightarrow> control_db
   \<Rightarrow> (js_error + DatabaseMetadata) \<times> control_db" where
  "create datetime metadata now db =
     (case exec_begin db of
        (Inl e, db1) \<Rightarrow> create_catch e db1
      | (Inr u, db1) \<Rightarrow>
          (case insert_metadata metadata now db1 of
             (Inl e, db2) \<Rightarrow> create_catch e db2
           | (Inr new_id, db2) \<Rightarrow>
               (case findById datetime new_id db2 of
                  None \<Rightarrow>
                    create_catch
                      (Error (''Failed to retrieve inserted record with ID '' @ show_nat new_id)) db2
                | Some record \<Rightarrow>
                    (case exec_commit db2 of
                       (Inl e, db3) \<Rightarrow> create_catch e db3
                     | (Inr u, db3) \<Rightarrow> (Inr record, db3)))))"

section \<open>Uploading a data file\<close>

record File =
  file_name :: string
  file_bytes :: "nat list"

text \<open>
  What the environment answers during one upload: the parsed form (\<open>c.req.formData()\<close> may
  throw; the \<open>file\<close> field may be absent), \<open>Date.now()\<close>, the storage directory, the
  function \<open>join\<close> of the \<open>path\<close> module, the result of opening the written file and
  listing its tables, \<open>new Date().toLocaleString()\<close>, and \<open>CURRENT_TIMESTAMP\<close> and the
  function \<open>datetime\<close> of the control database. \<open>Bun.write\<close> is taken to succeed.
\<close>

record upload_io =
  form :: "js_error + File option"
  timestamp :: nat
  storage_dir :: string
  path_join :: "string \<Rightarrow> string \<Rightarrow> string"
  opened_tables :: "js_error + string list"
  locale_now :: string
  db_now :: string
  sql_datetime :: "string \<Rightarrow> string option"

record upload_state =
  disk_files :: disk
  control :: control_db

datatype upload_reply =
    Reply_database DatabaseMetadata
  | Reply_error nat string "string option"

text \<open>The \<open>catch\<close> clause of the upload handler: the written file is emptied, not removed.\<close>

definition upload_catch :: "string option \<Rightarrow> js_error \<Rightarrow> upload_state \<Rightarrow> upload_reply \<times> upload_state" where
  "upload_catch storagePath e st =
     (Reply_error 500 ''Failed to upload database'' (Some (message_of e)),
      (case storagePath of
         None \<Rightarrow> st
       | Some p \<Rightarrow> st\<lparr>disk_files := (disk_files st)(p \<mapsto> [])\<rparr>))"

definition storage_path :: "upload_io \<Rightarrow> File \<Rightarrow> string" where
  "storage_path io file =
     path_join io (storage_dir io) (show_nat (timestamp io) @ ''-'' @ file_name file)"

definition post_upload :: "upload_io \<Rightarrow> upload_state \<Rightarrow> upload_reply \<times> upload_state" where
  "post_upload io st =
     (case form io of
        Inl e \<Rightarrow> upload_catch None e st
      | Inr None \<Rightarrow> (Reply_error 400 ''No file provided'' None, st)
      | Inr (Some file) \<Rightarrow>
          (let storagePath = storage_path io file;
               st1 = st\<lparr>disk_files := (disk_files st)(storagePath \<mapsto> file_bytes file)\<rparr>
           in (case statSync (disk_files st1) storagePath of
                 Inl e \<Rightarrow> upload_catch (Some storagePath) e st1
               | Inr sz \<Rightarrow>
                   (case opened_tables io of
                      Inl e \<Rightarrow> upload_catch (Some storagePath) e st1
                    | Inr tbls \<Rightarrow>
                        (case create (sql_datetime io)
                                \<lparr>md_name = file_name file, md_path = storagePath, md_size = sz,
                                 table_count = length tbls, is_favorite = False,
                                 md_notes = Some (''Uploaded on '' @ locale_now io),
                                 schema_cache = None, schema_updated_at = None\<rparr>
                                (db_now io) (control st1) of
                           (Inl e, c) \<Rightarrow> upload_catch (Some storagePath) e (st1\<lparr>control := c\<rparr>)
                         | (Inr database, c) \<Rightarrow> (Reply_database database, st1\<lparr>control := c\<rparr>))))))"

subsection \<open>The drop handler of the browser (\<open>DBUpload.onDrop\<close>)\<close>




section \<open>Verified properties\<close>

subsection \<open>Statement classification\<close>

lemma ws_lower: "isWhiteSpace c \<Longrightarrow> toLowerChar c = c"
  by (auto simp: isWhiteSpace_def toLowerChar_def)

lemma select_no_ws: "c \<in> set ''select'' \<Longrightarrow> \<not> isWhiteSpace c"
  by (auto simp: isWhiteSpace_def)

lemma trim_split:
  "\<exists>b. dropWhile isWhiteSpace s = trim s @ b \<and> (\<forall>c \<in> set b. isWhiteSpace c)"
proof -
  let ?t = "dropWhile isWhiteSpace s"
  have "?t = trim s @ rev (takeWhile isWhiteSpace (rev ?t))"
    unfolding trim_def by (metis rev_append rev_rev_ident takeWhile_dropWhile_id)
  moreover have "\<forall>c \<in> set (rev (takeWhile isWhiteSpace (rev ?t))). isWhiteSpace c"
    by (auto dest: set_takeWhileD)
  ultimately show ?thesis by blast
qed

lemma prefix_select_append:
  assumes b: "\<forall>c \<in> set b. isWhiteSpace c"
  shows "(take 6 (toLowerCase (a @ b)) = ''select'') = (take 6 (toLowerCase a) = ''select'')"
proof (cases "6 \<le> length a")
  case True
  then show ?thesis by (simp add: toLowerCase_def)
next
  case False
  have l: "take 6 (toLowerCase a) \<noteq> ''select''"
  proof
    assume "take 6 (toLowerCase a) = ''select''"
    then have "length (take 6 (toLowerCase a)) = 6" by simp
    with False show False by (simp add: toLowerCase_def)
  qed
  have r: "take 6 (toLowerCase (a @ b)) \<noteq> ''select''"
  proof
    assume h: "take 6 (toLowerCase (a @ b)) = ''select''"
    then have "length (take 6 (toLowerCase (a @ b))) = 6" by simp
    then have len: "6 \<le> length a + length b" by (simp add: toLowerCase_def)
    with False obtain x xs where bx: "b = x # xs" by (cases b) auto
    from b bx have wx: "isWhiteSpace x" by simp
    have "take 6 (toLowerCase (a @ b)) ! length a = toLowerChar x"
      using False bx by (simp add: toLowerCase_def nth_append)
    then have "''select'' ! length a = x" using h wx by (simp add: ws_lower)
    moreover have "''select'' ! length a \<in> set ''select''"
      using False by (intro nth_mem) simp
    ultimately show False using wx select_no_ws by blast
  qed
  from l r show ?thesis by simp
qed

lemma isSelect_first_six:
  "isSelect s = (take 6 (toLowerCase (dropWhile isWhiteSpace s)) = ''select'')"
proof -
  obtain b where s: "dropWhile isWhiteSpace s = trim s @ b" and b: "\<forall>c \<in> set b. isWhiteSpace c"
    using trim_split by blast
  have six: "length ''select'' = 6" by simp
  have "isSelect s = (take 6 (toLowerCase (trim s)) = ''select'')"
    unfolding isSelect_def startsWith_def six ..
  also have "\<dots> = (take 6 (toLowerCase (trim s @ b)) = ''select'')"
    using prefix_select_append [OF b, of "trim s"] by (rule sym)
  finally show ?thesis unfolding s .
qed

text \<open>
  Claim C6. Classification looks only at the first keyword after trimming and lower-casing:
  a statement is a read exactly when the six characters that follow its leading white space
  spell \<open>select\<close> in any mix of cases, and a write otherwise. The statement
  \<open>"  select 1"\<close> (also written \<open>"  SeLeCt 1"\<close>) is a read; \<open>"insert into t values (1)"\<close>
  is a write.
\<close>

theorem classification_first_keyword:
  "isSelect ''  select 1'' \<and> isSelect ''  SeLeCt 1'' \<and> \<not> isSelect ''insert into t values (1)''
   \<and> isSelect s = (take 6 (toLowerCase (dropWhile isWhiteSpace s)) = ''select'')"
proof -
  have a: "isSelect ''  select 1''" by code_simp
  have b: "isSelect ''  SeLeCt 1''" by code_simp
  have c: "\<not> isSelect ''insert into t values (1)''" by code_simp
  show ?thesis using a b c isSelect_first_six by blast
qed

subsection \<open>The connection manager without a connection\<close>

lemma info_needs_db: "currentDbInfo (run fs cs) \<noteq> None \<Longrightarrow> currentDb (run fs cs) \<noteq> None"
proof (induction cs rule: rev_induct)
  case Nil
  then show ?case by (simp add: run_def init_world_def)
next
  case (snoc c cs)
  then show ?case
    by (cases c)
       (auto simp: run_def loadDatabase_def loadDatabase_try_def closeCurrentDatabase_def unlink_def Let_def
             split: option.splits sum.splits prod.splits if_splits)
qed

lemma closed_has_no_info: "currentDbInfo (closeCurrentDatabase (run fs cs)) = None"
proof (cases "currentDb (run fs cs)")
  case None
  with info_needs_db [of fs cs] have "currentDbInfo (run fs cs) = None" by blast
  with None show ?thesis by (simp add: closeCurrentDatabase_def)
next
  case (Some h)
  then show ?thesis by (simp add: closeCurrentDatabase_def)
qed

lemma closed_has_no_db: "currentDb (closeCurrentDatabase w) = None"
  by (simp add: closeCurrentDatabase_def split: option.splits)

text \<open>
  Claim C7. \<open>getCurrentDatabaseInfo\<close> fails with the error "No database currently loaded"
  when nothing has been opened, and after \<open>closeCurrentDatabase\<close> in every state the manager
  can reach; \<open>executeQuery\<close> fails with the same error in both situations.
\<close>

theorem no_connection_error:
  "getCurrentDatabaseInfo (init_world fs) = Inl (Error ''No database currently loaded'')
   \<and> getCurrentDatabaseInfo (closeCurrentDatabase (run fs cs)) = Inl (Error ''No database currently loaded'')
   \<and> executeQuery q r (init_world fs) = Inl (Error ''No database currently loaded'')
   \<and> executeQuery q r (closeCurrentDatabase (run fs cs)) = Inl (Error ''No database currently loaded'')"
  by (simp add: getCurrentDatabaseInfo_def executeQuery_def no_database_loaded_def
        closed_has_no_info closed_has_no_db init_world_def)

subsection \<open>One connection at a time\<close>

lemma pools_are_current:
  "pools (run fs cs) = (case currentDb (run fs cs) of None \<Rightarrow> [] | Some h \<Rightarrow> [h])"
proof (induction cs rule: rev_induct)
  case Nil
  then show ?case by (simp add: run_def init_world_def)
next
  case (snoc c cs)
  then show ?case
    by (cases c)
       (auto simp: run_def loadDatabase_def loadDatabase_try_def closeCurrentDatabase_def unlink_def Let_def
             split: option.splits sum.splits prod.splits if_splits)
qed

lemma serial_fresh: "\<forall>h \<in> set (pools (run fs cs)). fst h < serial (run fs cs)"
proof (induction cs rule: rev_induct)
  case Nil
  then show ?case by (simp add: run_def init_world_def)
next
  case (snoc c cs)
  then show ?case
    by (cases c)
       (auto simp: run_def loadDatabase_def loadDatabase_try_def closeCurrentDatabase_def unlink_def Let_def
             split: option.splits sum.splits prod.splits if_splits)
qed

lemma closed_no_pools: "pools (closeCurrentDatabase (run fs cs)) = []"
  using pools_are_current [of fs cs]
  by (simp add: closeCurrentDatabase_def split: option.splits)

lemma loadDatabase_ok:
  assumes "loadDatabase p n io w = (Inr info, w')"
  shows "\<exists>bytes tbls. files w p = Some bytes \<and> catalog io = Inr tbls \<and> connect_throws io = None
     \<and> info = \<lparr>path = p, name = n, size_bytes = length bytes, tables = tbls, lastAccessed = clock io\<rparr>
     \<and> w' = (closeCurrentDatabase w)\<lparr>currentDb := Some (serial w, p),
              pools := (serial w, p) # pools (closeCurrentDatabase w), serial := Suc (serial w),
              currentDbInfo := Some info\<rparr>"
  using assms
  by (auto simp: loadDatabase_def loadDatabase_try_def closeCurrentDatabase_def statSync_def Let_def
           split: option.splits sum.splits prod.splits if_splits)

text \<open>
  Claim C2. In every state the manager reaches at most one pool is open. A successful
  \<open>loadDatabase\<close> first closes the pool that was open (no pool is left at that moment),
  then opens the new one: afterwards the new pool is the only open pool, the earlier handle
  is not among the open pools, and \<open>getCurrentDatabaseInfo\<close> returns the summary of the
  file just opened.
\<close>

theorem single_connection:
  assumes "loadDatabase p n io (run fs cs) = (Inr info, w')"
  shows "length (pools (run fs cs)) \<le> 1
       \<and> pools (closeCurrentDatabase (run fs cs)) = []
       \<and> pools w' = [(serial (run fs cs), p)]
       \<and> currentDb w' = Some (serial (run fs cs), p)
       \<and> set_option (currentDb (run fs cs)) \<inter> set (pools w') = {}
       \<and> getCurrentDatabaseInfo w' = Inr info
       \<and> path info = p \<and> name info = n"
proof -
  let ?w = "run fs cs"
  from loadDatabase_ok [OF assms] obtain bytes tbls where
    all: "files ?w p = Some bytes \<and> catalog io = Inr tbls \<and> connect_throws io = None
     \<and> info = \<lparr>path = p, name = n, size_bytes = length bytes, tables = tbls, lastAccessed = clock io\<rparr>
     \<and> w' = (closeCurrentDatabase ?w)\<lparr>currentDb := Some (serial ?w, p),
              pools := (serial ?w, p) # pools (closeCurrentDatabase ?w), serial := Suc (serial ?w),
              currentDbInfo := Some info\<rparr>"
    by (elim exE)
  from all have info: "info = \<lparr>path = p, name = n, size_bytes = length bytes, tables = tbls, lastAccessed = clock io\<rparr>"
    by (elim conjE)
  from all have w': "w' = (closeCurrentDatabase ?w)\<lparr>currentDb := Some (serial ?w, p),
              pools := (serial ?w, p) # pools (closeCurrentDatabase ?w), serial := Suc (serial ?w),
              currentDbInfo := Some info\<rparr>"
    by (elim conjE)
  have one: "length (pools ?w) \<le> 1"
    using pools_are_current [of fs cs] by (simp split: option.splits)
  have cl: "pools (closeCurrentDatabase ?w) = []" by (rule closed_no_pools)
  have pw: "pools w' = [(serial ?w, p)]" using w' cl by simp
  have old: "set_option (currentDb ?w) \<inter> set (pools w') = {}"
  proof (cases "currentDb ?w")
    case None
    then show ?thesis by simp
  next
    case (Some h)
    with pools_are_current [of fs cs] have "h \<in> set (pools ?w)" by simp
    with serial_fresh [of fs cs] have "fst h < serial ?w" by blast
    then show ?thesis using Some pw by auto
  qed
  show ?thesis
    using one cl pw old w' info by (simp add: getCurrentDatabaseInfo_def)
qed

subsection \<open>Evaluation at concrete inputs and failed opens\<close>

lemmas manager_defs =
  run_def init_world_def loadDatabase_def loadDatabase_try_def closeCurrentDatabase_def
  unlink_def statSync_def existsSync_def getCurrentDatabaseInfo_def isConnected_def
  no_database_loaded_def Let_def

text \<open>
  The same at a concrete run: \<open>a.db\<close> is open when \<open>b.db\<close> is loaded.
\<close>

theorem single_connection_witness:
  "fst (loadDatabase ''/data/b.db'' ''b.db'' \<lparr>connect_throws = None, catalog = Inr [''t''], clock = 9\<rparr>
         (run [''/data/a.db'' \<mapsto> [1, 2, 3], ''/data/b.db'' \<mapsto> [4, 5]]
            [LoadDatabase ''/data/a.db'' ''a.db'' \<lparr>connect_throws = None, catalog = Inr [], clock = 7\<rparr>]))
     = Inr \<lparr>path = ''/data/b.db'', name = ''b.db'', size_bytes = 2, tables = [''t''], lastAccessed = 9\<rparr>
   \<and> pools (snd (loadDatabase ''/data/b.db'' ''b.db'' \<lparr>connect_throws = None, catalog = Inr [''t''], clock = 9\<rparr>
         (run [''/data/a.db'' \<mapsto> [1, 2, 3], ''/data/b.db'' \<mapsto> [4, 5]]
            [LoadDatabase ''/data/a.db'' ''a.db'' \<lparr>connect_throws = None, catalog = Inr [], clock = 7\<rparr>])))
     = [(1, ''/data/b.db'')]
   \<and> getCurrentDatabaseInfo (snd (loadDatabase ''/data/b.db'' ''b.db'' \<lparr>connect_throws = None, catalog = Inr [''t''], clock = 9\<rparr>
         (run [''/data/a.db'' \<mapsto> [1, 2, 3], ''/data/b.db'' \<mapsto> [4, 5]]
            [LoadDatabase ''/data/a.db'' ''a.db'' \<lparr>connect_throws = None, catalog = Inr [], clock = 7\<rparr>])))
     = Inr \<lparr>path = ''/data/b.db'', name = ''b.db'', size_bytes = 2, tables = [''t''], lastAccessed = 9\<rparr>"
proof -
  let ?fs = "[''/data/a.db'' \<mapsto> [1, 2, 3], ''/data/b.db'' \<mapsto> [4, 5::nat]]"
  let ?cs = "[LoadDatabase ''/data/a.db'' ''a.db'' \<lparr>connect_throws = None, catalog = Inr [], clock = 7\<rparr>]"
  let ?io = "\<lparr>connect_throws = None, catalog = Inr [''t''], clock = 9\<rparr>"
  let ?info = "\<lparr>path = ''/data/b.db'', name = ''b.db'', size_bytes = 2, tables = [''t''], lastAccessed = 9\<rparr>"
  have f: "fst (loadDatabase ''/data/b.db'' ''b.db'' ?io (run ?fs ?cs)) = Inr ?info"
    by (simp add: manager_defs)
  then have h: "loadDatabase ''/data/b.db'' ''b.db'' ?io (run ?fs ?cs)
      = (Inr ?info, snd (loadDatabase ''/data/b.db'' ''b.db'' ?io (run ?fs ?cs)))"
    by (metis prod.collapse)
  have s: "serial (run ?fs ?cs) = 1" by (simp add: manager_defs)
  from single_connection [OF h] f s show ?thesis by simp
qed

text \<open>
  Claim C9, evaluated on the code. A \<open>loadDatabase\<close> whose catalog query fails leaves the
  new pool in \<open>currentDb\<close> and no summary in \<open>currentDbInfo\<close>: \<open>isConnected\<close> answers
  true while \<open>getCurrentDatabaseInfo\<close> raises.
\<close>

theorem failed_load_keeps_handle:
  "isConnected (run [''/data/notes.txt'' \<mapsto> [104, 105]]
      [LoadDatabase ''/data/notes.txt'' ''notes.txt''
         \<lparr>connect_throws = None, catalog = Inl (Error ''SQLITE_NOTADB: file is not a database''), clock = 7\<rparr>])
   \<and> currentDbInfo (run [''/data/notes.txt'' \<mapsto> [104, 105]]
      [LoadDatabase ''/data/notes.txt'' ''notes.txt''
         \<lparr>connect_throws = None, catalog = Inl (Error ''SQLITE_NOTADB: file is not a database''), clock = 7\<rparr>]) = None
   \<and> getCurrentDatabaseInfo (run [''/data/notes.txt'' \<mapsto> [104, 105]]
      [LoadDatabase ''/data/notes.txt'' ''notes.txt''
         \<lparr>connect_throws = None, catalog = Inl (Error ''SQLITE_NOTADB: file is not a database''), clock = 7\<rparr>])
     = Inl (Error ''No database currently loaded'')"
  by (simp add: manager_defs)

text \<open>
  Claim C10. When \<open>loadDatabase\<close> fails and a file exists at \<open>filePath\<close>, the file is
  removed from the disk (and no other file is touched), and the error returned is the one
  that made the open fail.
\<close>

theorem failed_load_unlinks_file:
  assumes "fst (loadDatabase p n io w) = Inl e" and "files w p \<noteq> None"
  shows "files (snd (loadDatabase p n io w)) = (files w)(p := None)
       \<and> (connect_throws io = Some e \<or> (connect_throws io = None \<and> catalog io = Inl e))"
  using assms
  by (auto simp: loadDatabase_def loadDatabase_try_def closeCurrentDatabase_def statSync_def
        existsSync_def unlink_def Let_def
      split: option.splits sum.splits prod.splits if_splits)

text \<open>
  The same at a concrete input: a text file that the engine refuses as a database.
\<close>

theorem failed_load_unlinks_file_witness:
  "fst (loadDatabase ''/data/notes.txt'' ''notes.txt''
         \<lparr>connect_throws = None, catalog = Inl (Error ''SQLITE_NOTADB: file is not a database''), clock = 7\<rparr>
         (init_world [''/data/notes.txt'' \<mapsto> [104, 105], ''/data/a.db'' \<mapsto> [1]]))
     = Inl (Error ''SQLITE_NOTADB: file is not a database'')
   \<and> files (snd (loadDatabase ''/data/notes.txt'' ''notes.txt''
         \<lparr>connect_throws = None, catalog = Inl (Error ''SQLITE_NOTADB: file is not a database''), clock = 7\<rparr>
         (init_world [''/data/notes.txt'' \<mapsto> [104, 105], ''/data/a.db'' \<mapsto> [1]]))) ''/data/notes.txt'' = None
   \<and> files (snd (loadDatabase ''/data/notes.txt'' ''notes.txt''
         \<lparr>connect_throws = None, catalog = Inl (Error ''SQLITE_NOTADB: file is not a database''), clock = 7\<rparr>
         (init_world [''/data/notes.txt'' \<mapsto> [104, 105], ''/data/a.db'' \<mapsto> [1]]))) ''/data/a.db'' = Some [1]"
proof -
  let ?io = "\<lparr>connect_throws = None, catalog = Inl (Error ''SQLITE_NOTADB: file is not a database''), clock = 7\<rparr>"
  let ?w = "init_world [''/data/notes.txt'' \<mapsto> [104, 105], ''/data/a.db'' \<mapsto> [1::nat]]"
  have f: "fst (loadDatabase ''/data/notes.txt'' ''notes.txt'' ?io ?w)
      = Inl (Error ''SQLITE_NOTADB: file is not a database'')"
    by (simp add: manager_defs)
  have e: "files ?w ''/data/notes.txt'' \<noteq> None" by (simp add: init_world_def)
  from failed_load_unlinks_file [OF f e] f show ?thesis by (simp add: init_world_def)
qed


subsection \<open>The query route\<close>

text \<open>With the handle and its summary both present, each request is recorded once.\<close>

lemma post_try_failure:
  assumes "currentDb w = Some h" and "currentDbInfo w = Some info" and "engine io = Inl e"
  shows "post_try sql io w log =
     (Inl e, log @ [\<lparr>query = sql, database_name = name info, database_path = path info,
                     execution_time_ms = endTime io - startTime io, success = False,
                     error_message = Some (message_of e), results = None\<rparr>])"
  using assms
  by (simp add: post_try_def post_catch_def getCurrentDatabaseInfo_def executeQuery_def
        addToHistory_def)

lemma post_try_success:
  assumes "currentDb w = Some h" and "currentDbInfo w = Some info" and "engine io = Inr r"
  shows "\<exists>body. post_try sql io w log =
     (Inr (Json body 200),
      log @ [\<lparr>query = sql, database_name = name info, database_path = path info,
               execution_time_ms = endTime io - startTime io, success = True,
               error_message = None,
               results = Some (if isSelect sql then r else Obj [(''changes'', r)])\<rparr>])"
  using assms
  by (simp add: post_try_def getCurrentDatabaseInfo_def executeQuery_def addToHistory_def)

text \<open>
  With the handle present and the summary absent, \<open>getCurrentDatabaseInfo\<close> throws in the
  \<open>try\<close> block and again in its \<open>catch\<close> clause, before \<open>addToHistory\<close> is reached.
\<close>

lemma post_query_without_summary:
  assumes "currentDb w = Some h" and "currentDbInfo w = None" and "sql \<noteq> []"
  shows "post_query (Inr (Some sql)) io w log = (failed_to_execute no_database_loaded, log)"
  using assms
  by (simp add: post_query_def post_try_def post_catch_def getCurrentDatabaseInfo_def
        isConnected_def)

lemmas route_defs =
  post_query_def failed_to_execute_def post_try_def post_catch_def executeQuery_def
  addToHistory_def message_of_def

text \<open>
  Claim C1, evaluated on the code. After a \<open>loadDatabase\<close> whose catalog query failed, a
  connection is open (\<open>isConnected\<close> answers true and the route's guard passes), and the
  statement \<open>select 1\<close> sent to the route is answered 500 with no history entry appended,
  whatever the engine would answer.
\<close>

theorem query_after_failed_load_not_recorded:
  "isConnected (run [''/data/notes.txt'' \<mapsto> [104, 105]]
      [LoadDatabase ''/data/notes.txt'' ''notes.txt''
         \<lparr>connect_throws = None, catalog = Inl (Error ''SQLITE_NOTADB: file is not a database''), clock = 7\<rparr>])
   \<and> (\<forall>r. post_query (Inr (Some ''select 1''))
          \<lparr>startTime = 1000, endTime = 1004, engine = r\<rparr>
          (run [''/data/notes.txt'' \<mapsto> [104, 105]]
             [LoadDatabase ''/data/notes.txt'' ''notes.txt''
                \<lparr>connect_throws = None, catalog = Inl (Error ''SQLITE_NOTADB: file is not a database''), clock = 7\<rparr>])
          []
        = (Json (Obj [(''error'', Str ''Failed to execute query''),
                      (''details'', Str ''No database currently loaded'')]) 500,
           []))"
  by (simp add: manager_defs route_defs)

text \<open>
  Claim C5, evaluated on the code. For the write \<open>insert into t values (1)\<close> on an open
  connection, whatever the engine answers, the response carries the engine's whole answer
  as \<open>changes\<close> and \<open>undefined\<close> as \<open>lastInsertId\<close>: \<open>executeQuery\<close> returns
  \<open>{ changes: result }\<close>, which has no \<open>lastInsertRowid\<close>.
\<close>

theorem write_reply_lacks_lastInsertId:
  "\<forall>r. fst (post_query (Inr (Some ''insert into t values (1)''))
          \<lparr>startTime = 1000, endTime = 1004, engine = Inr r\<rparr>
          (run [''/data/a.db'' \<mapsto> [1, 2, 3]]
             [LoadDatabase ''/data/a.db'' ''a.db'' \<lparr>connect_throws = None, catalog = Inr [''t''], clock = 7\<rparr>])
          [])
     = Json (Obj [(''changes'', r), (''lastInsertId'', Undefined)]) 200"
proof -
  have w: "\<not> isSelect ''insert into t values (1)''" by code_simp
  show ?thesis
    by (simp add: manager_defs route_defs w)
qed

subsection \<open>Preferences\<close>

lemma filter_unique_key:
  "distinct (map f xs) \<Longrightarrow> k \<in> set (map f xs) \<Longrightarrow> \<exists>r. filter (\<lambda>r. f r = k) xs = [r]"
proof (induction xs)
  case Nil
  then show ?case by simp
next
  case (Cons x xs)
  show ?case
  proof (cases "f x = k")
    case True
    with Cons.prems have "k \<notin> f ` set xs" by auto
    then have "filter (\<lambda>r. f r = k) xs = []" by (auto simp: filter_empty_conv)
    with True show ?thesis by simp
  next
    case False
    with Cons show ?thesis by auto
  qed
qed

lemma setPreference_keys_update:
  "map pref_key (map (\<lambda>r. if pref_key r = k then r\<lparr>pref_value := v, updated_at := n\<rparr> else r) rows)
     = map pref_key rows"
  by (induction rows) auto

lemma setPreference_keys:
  "map pref_key (pref_rows (setPreference k v n t))
     = (if k \<in> set (map pref_key (pref_rows t)) then map pref_key (pref_rows t)
        else map pref_key (pref_rows t) @ [k])"
  unfolding setPreference_def
  by (simp add: setPreference_keys_update del: map_map)

lemma setPreference_distinct:
  "distinct (map pref_key (pref_rows t)) \<Longrightarrow> distinct (map pref_key (pref_rows (setPreference k v n t)))"
  unfolding setPreference_keys by simp

lemma setPreference_has_key: "k \<in> set (map pref_key (pref_rows (setPreference k v n t)))"
  unfolding setPreference_keys by simp

lemma setPreference_overwrites:
  assumes "k \<in> set (map pref_key (pref_rows t))"
  shows "filter (\<lambda>r. pref_key r = k) (pref_rows (setPreference k v n t))
       = map (\<lambda>r. r\<lparr>pref_value := v, updated_at := n\<rparr>) (filter (\<lambda>r. pref_key r = k) (pref_rows t))"
    and "length (pref_rows (setPreference k v n t)) = length (pref_rows t)"
    and "pref_seq (setPreference k v n t) = pref_seq t"
proof -
  have "filter (\<lambda>r. pref_key r = k)
          (map (\<lambda>r. if pref_key r = k then r\<lparr>pref_value := v, updated_at := n\<rparr> else r) rows)
      = map (\<lambda>r. r\<lparr>pref_value := v, updated_at := n\<rparr>) (filter (\<lambda>r. pref_key r = k) rows)" for rows
    by (induction rows) auto
  with assms show "filter (\<lambda>r. pref_key r = k) (pref_rows (setPreference k v n t))
       = map (\<lambda>r. r\<lparr>pref_value := v, updated_at := n\<rparr>) (filter (\<lambda>r. pref_key r = k) (pref_rows t))"
    by (simp add: setPreference_def)
  from assms show "length (pref_rows (setPreference k v n t)) = length (pref_rows t)"
    by (simp add: setPreference_def)
  from assms show "pref_seq (setPreference k v n t) = pref_seq t"
    by (simp add: setPreference_def)
qed

text \<open>
  Claim C8. On a table whose keys are unique (the column is \<open>UNIQUE\<close>), writing a key
  twice leaves exactly one row for the key, holding the second value and the second
  timestamp; the second write adds no row, and \<open>getPreference\<close> reads the second value.
\<close>

theorem setPreference_twice:
  assumes "distinct (map pref_key (pref_rows t))"
  shows "\<exists>r. filter (\<lambda>r. pref_key r = k) (pref_rows (setPreference k v2 n2 (setPreference k v1 n1 t))) = [r]
       \<and> pref_value r = v2 \<and> updated_at r = n2
       \<and> length (pref_rows (setPreference k v2 n2 (setPreference k v1 n1 t)))
           = length (pref_rows (setPreference k v1 n1 t))
       \<and> getPreference k (setPreference k v2 n2 (setPreference k v1 n1 t)) = Some v2"
proof -
  let ?t1 = "setPreference k v1 n1 t"
  let ?t2 = "setPreference k v2 n2 ?t1"
  have d1: "distinct (map pref_key (pref_rows ?t1))" using assms by (rule setPreference_distinct)
  have k1: "k \<in> set (map pref_key (pref_rows ?t1))" by (rule setPreference_has_key)
  from filter_unique_key [OF d1 k1] obtain r1 where
    r1: "filter (\<lambda>r. pref_key r = k) (pref_rows ?t1) = [r1]" by (elim exE)
  have f2: "filter (\<lambda>r. pref_key r = k) (pref_rows ?t2) = [r1\<lparr>pref_value := v2, updated_at := n2\<rparr>]"
    using setPreference_overwrites(1) [OF k1, of v2 n2] r1 by simp
  have l2: "length (pref_rows ?t2) = length (pref_rows ?t1)"
    by (rule setPreference_overwrites(2) [OF k1])
  have g2: "getPreference k ?t2 = Some v2"
    unfolding getPreference_def f2 by simp
  show ?thesis using f2 l2 g2 by simp
qed

text \<open>
  The same at a concrete table: \<open>theme\<close> is written twice beside an existing \<open>fontSize\<close>.
\<close>

theorem setPreference_twice_witness:
  "pref_rows (setPreference ''theme'' ''dark'' 20 (setPreference ''theme'' ''light'' 10
      \<lparr>pref_rows = [\<lparr>pref_id = 1, pref_key = ''fontSize'', pref_value = ''12'', updated_at = 3\<rparr>],
       pref_seq = 1\<rparr>))
   = [\<lparr>pref_id = 1, pref_key = ''fontSize'', pref_value = ''12'', updated_at = 3\<rparr>,
      \<lparr>pref_id = 2, pref_key = ''theme'', pref_value = ''dark'', updated_at = 20\<rparr>]
   \<and> getPreference ''theme'' (setPreference ''theme'' ''dark'' 20 (setPreference ''theme'' ''light'' 10
      \<lparr>pref_rows = [\<lparr>pref_id = 1, pref_key = ''fontSize'', pref_value = ''12'', updated_at = 3\<rparr>],
       pref_seq = 1\<rparr>)) = Some ''dark''"
proof -
  let ?t = "\<lparr>pref_rows = [\<lparr>pref_id = 1, pref_key = ''fontSize'', pref_value = ''12'', updated_at = 3\<rparr>],
       pref_seq = 1\<rparr>"
  have d: "distinct (map pref_key (pref_rows ?t))" by simp
  have rows: "pref_rows (setPreference ''theme'' ''dark'' 20 (setPreference ''theme'' ''light'' 10 ?t))
   = [\<lparr>pref_id = 1, pref_key = ''fontSize'', pref_value = ''12'', updated_at = 3\<rparr>,
      \<lparr>pref_id = 2, pref_key = ''theme'', pref_value = ''dark'', updated_at = 20\<rparr>]"
    by (simp add: setPreference_def)
  from setPreference_twice [OF d, of "''theme''" "''dark''" 20 "''light''" 10] rows
  show ?thesis by simp
qed


subsection \<open>Registering a data file\<close>

lemma fold_max_bounds: "s \<le> fold max xs s \<and> (\<forall>x \<in> set xs. x \<le> fold max xs (s::nat))"
proof (induction xs arbitrary: s)
  case Nil
  then show ?case by simp
next
  case (Cons y ys)
  from Cons.IH [of "max y s"] show ?case by auto
qed

lemma ids_below_next_rowid: "r \<in> set (metadata_rows db) \<Longrightarrow> md_id r < next_rowid db"
  using fold_max_bounds [of "metadata_seq db" "map md_id (metadata_rows db)"]
  by (auto simp: next_rowid_def less_Suc_eq_le)

lemma find_appended_id:
  assumes "\<And>r. r \<in> set rows \<Longrightarrow> md_id r < i" and "md_id row = i"
  shows "find (\<lambda>r. md_id r = i) (rows @ [row]) = Some row"
  using assms
proof (induction rows)
  case Nil
  then show ?case by simp
next
  case (Cons a rows)
  from Cons.prems(1) [of a] have "md_id a \<noteq> i" by simp
  moreover have "find (\<lambda>r. md_id r = i) (rows @ [row]) = Some row"
    using Cons.prems by (intro Cons.IH) simp_all
  ultimately show ?case by simp
qed

lemma create_new_path:
  assumes txn: "in_txn db = None"
    and new: "md_path m \<notin> set (map md_path (metadata_rows db))"
  shows "create dt m now db =
     (Inr (select_columns dt (inserted_row m (next_rowid db) now)),
      db\<lparr>metadata_rows := metadata_rows db @ [inserted_row m (next_rowid db) now],
          metadata_seq := next_rowid db\<rparr>)"
proof -
  let ?row = "inserted_row m (next_rowid db) now"
  have i: "md_id ?row = next_rowid db" by (simp add: inserted_row_def)
  have f: "find (\<lambda>r. md_id r = next_rowid db) (metadata_rows db @ [?row]) = Some ?row"
    using ids_below_next_rowid i by (rule find_appended_id)
  have n: "next_rowid (db\<lparr>in_txn := Some (metadata_rows db, metadata_seq db)\<rparr>) = next_rowid db"
    by (simp add: next_rowid_def)
  show ?thesis
    using txn new f n
    by (simp add: create_def exec_begin_def insert_metadata_def findById_def exec_commit_def Let_def)
qed

lemma create_existing_path:
  assumes txn: "in_txn db = None"
    and old: "md_path m \<in> set (map md_path (metadata_rows db))"
  shows "create dt m now db = (Inl (Error ''UNIQUE constraint failed: database_metadata.path''), db)"
  using txn old
  by (simp add: create_def exec_begin_def insert_metadata_def create_catch_def exec_rollback_def)

text \<open>
  Claim C3, as amended. Registering an uploaded file is \<open>create\<close>, a transactional insert
  keyed by the unique \<open>path\<close>. With no transaction already active on the control database:
  when no record has the path, one row holding the supplied fields is appended, and the
  record returned is that row as the select gives it; when a record has the path,
  \<open>create\<close> raises the \<open>UNIQUE\<close> violation and the database is exactly as before, so the
  existing row is not updated. Either the new row is visible as a whole or nothing of it is.
\<close>

theorem register_inserts_or_raises:
  assumes "in_txn db = None"
  shows
    "if md_path m \<in> set (map md_path (metadata_rows db))
     then create dt m now db = (Inl (Error ''UNIQUE constraint failed: database_metadata.path''), db)
     else create dt m now db =
            (Inr (select_columns dt (inserted_row m (next_rowid db) now)),
             db\<lparr>metadata_rows := metadata_rows db @ [inserted_row m (next_rowid db) now],
                 metadata_seq := next_rowid db\<rparr>)"
proof (cases "md_path m \<in> set (map md_path (metadata_rows db))")
  case True
  with create_existing_path [OF assms True, of dt now] show ?thesis by simp
next
  case False
  with create_new_path [OF assms False, of dt now] show ?thesis by simp
qed

lemmas catalog_defs =
  create_def create_catch_def exec_begin_def exec_commit_def exec_rollback_def
  insert_metadata_def inserted_row_def next_rowid_def select_columns_def findById_def
  or_null_def Let_def

lemmas upload_defs =
  post_upload_def upload_catch_def storage_path_def statSync_def message_of_def

text \<open>
  The same at a concrete input: a first registration, whose \<open>schema_updated_at\<close> is stored
  as supplied and returned as \<open>datetime\<close> gives it.
\<close>

theorem register_inserts_or_raises_witness:
  "create (\<lambda>s. if s = ''2025-01-01 00:00:09'' then Some s else None)
     \<lparr>md_name = ''b.db'', md_path = ''/storage/databases/6-b.db'', md_size = 2,
      table_count = 0, is_favorite = False, md_notes = Some ''Uploaded on 1/1/2025'',
      schema_cache = None, schema_updated_at = Some ''soon''\<rparr>
     ''2025-01-01 00:00:09''
     \<lparr>metadata_rows = [], metadata_seq = 0, in_txn = None\<rparr>
   = (Inr \<lparr>md_name = ''b.db'', md_path = ''/storage/databases/6-b.db'', md_size = 2,
           table_count = 0, is_favorite = False, md_notes = Some ''Uploaded on 1/1/2025'',
           schema_cache = None, schema_updated_at = None,
           md_id = 1, last_accessed = Some ''2025-01-01 00:00:09'',
           created_at = Some ''2025-01-01 00:00:09''\<rparr>,
      \<lparr>metadata_rows =
         [\<lparr>md_name = ''b.db'', md_path = ''/storage/databases/6-b.db'', md_size = 2,
           table_count = 0, is_favorite = False, md_notes = Some ''Uploaded on 1/1/2025'',
           schema_cache = None, schema_updated_at = Some ''soon'',
           md_id = 1, last_accessed = Some ''2025-01-01 00:00:09'',
           created_at = Some ''2025-01-01 00:00:09''\<rparr>],
       metadata_seq = 1, in_txn = None\<rparr>)"
proof -
  let ?db = "\<lparr>metadata_rows = [], metadata_seq = 0, in_txn = None\<rparr>"
  have txn: "in_txn ?db = None" by simp
  from register_inserts_or_raises [OF txn,
      where m = "\<lparr>md_name = ''b.db'', md_path = ''/storage/databases/6-b.db'', md_size = 2,
           table_count = 0, is_favorite = False, md_notes = Some ''Uploaded on 1/1/2025'',
           schema_cache = None, schema_updated_at = Some ''soon''\<rparr>"
        and now = "''2025-01-01 00:00:09''"
        and dt = "\<lambda>s. if s = ''2025-01-01 00:00:09'' then Some s else None"]
  show ?thesis
    by (simp add: or_null_def inserted_row_def next_rowid_def select_columns_def)
qed

text \<open>
  Claim C3 as stated fails: an upload whose storage path is already registered is answered
  500 with the \<open>UNIQUE\<close> violation, and the registered row keeps its \<open>size\<close>,
  \<open>table_count\<close> and \<open>last_accessed\<close>.
\<close>

theorem upload_onto_registered_path_updates_nothing:
  "fst (post_upload
     \<lparr>form = Inr (Some \<lparr>file_name = ''a.db'', file_bytes = [1, 2]\<rparr>), timestamp = 5,
      storage_dir = ''/storage/databases'', path_join = (\<lambda>d f. d @ ''/'' @ f),
      opened_tables = Inr [''t'', ''u''], locale_now = ''1/1/2025'',
      db_now = ''2025-01-01 00:00:09'', sql_datetime = Some\<rparr>
     \<lparr>disk_files = [''/storage/databases/5-a.db'' \<mapsto> [7, 7, 7]],
      control = \<lparr>metadata_rows =
                   [\<lparr>md_name = ''a.db'', md_path = ''/storage/databases/5-a.db'', md_size = 3,
                     table_count = 1, is_favorite = True, md_notes = Some ''keep'',
                     schema_cache = None, schema_updated_at = None,
                     md_id = 1, last_accessed = Some ''2025-01-01 00:00:04'',
                     created_at = Some ''2025-01-01 00:00:04''\<rparr>],
                 metadata_seq = 1, in_txn = None\<rparr>\<rparr>)
   = Reply_error 500 ''Failed to upload database''
       (Some ''UNIQUE constraint failed: database_metadata.path'')
   \<and> metadata_rows (control (snd (post_upload
     \<lparr>form = Inr (Some \<lparr>file_name = ''a.db'', file_bytes = [1, 2]\<rparr>), timestamp = 5,
      storage_dir = ''/storage/databases'', path_join = (\<lambda>d f. d @ ''/'' @ f),
      opened_tables = Inr [''t'', ''u''], locale_now = ''1/1/2025'',
      db_now = ''2025-01-01 00:00:09'', sql_datetime = Some\<rparr>
     \<lparr>disk_files = [''/storage/databases/5-a.db'' \<mapsto> [7, 7, 7]],
      control = \<lparr>metadata_rows =
                   [\<lparr>md_name = ''a.db'', md_path = ''/storage/databases/5-a.db'', md_size = 3,
                     table_count = 1, is_favorite = True, md_notes = Some ''keep'',
                     schema_cache = None, schema_updated_at = None,
                     md_id = 1, last_accessed = Some ''2025-01-01 00:00:04'',
                     created_at = Some ''2025-01-01 00:00:04''\<rparr>],
                 metadata_seq = 1, in_txn = None\<rparr>\<rparr>)))
   = [\<lparr>md_name = ''a.db'', md_path = ''/storage/databases/5-a.db'', md_size = 3,
       table_count = 1, is_favorite = True, md_notes = Some ''keep'',
       schema_cache = None, schema_updated_at = None,
       md_id = 1, last_accessed = Some ''2025-01-01 00:00:04'',
       created_at = Some ''2025-01-01 00:00:04''\<rparr>]"
proof -
  have p: "show_nat 5 = ''5''" by code_simp
  show ?thesis by (simp add: upload_defs catalog_defs p)
qed

subsection \<open>The extension of an uploaded file\<close>




end
